theory Spec2Isabelle
  imports Complex_Main "HOL-Library.Log_Nat"
begin

section \<open>The Hardware tab of the REACHER dashboard\<close>

text \<open>
  A shallow embedding of \<^verbatim>\<open>src/reacher/remote/hardware_tab.py\<close> (class
  \<^verbatim>\<open>HardwareTab\<close>). The object is a record of the attributes the handlers read or
  write; a handler is a function from the object before the call to the object after it.
  The two effects that leave the object are written into it as traces: \<open>posts\<close> holds
  every call of \<^verbatim>\<open>requests.post\<close> in order, \<open>log\<close> holds every call of the base
  dashboard's \<^verbatim>\<open>add_response\<close> and \<^verbatim>\<open>add_error\<close> in order.
\<close>

subsection \<open>Requests, responses and the network\<close>

text \<open>
  One call \<^verbatim>\<open>requests.post(timeout=5, url=..., json={'command': c})\<close>.
\<close>

record request =
  timeout :: nat
  url :: string
  command :: string

text \<open>
  What the handlers use of a \<^verbatim>\<open>requests.Response\<close>: \<^verbatim>\<open>raise_for_status\<close> reads
  the status code, the reason phrase and the URL of the response.
\<close>

record response =
  status_code :: int
  reason :: string
  resp_url :: string

text \<open>
  \<^verbatim>\<open>requests.post\<close> either raises (connection refused, timeout, ...; the string is
  \<^verbatim>\<open>str(e)\<close>) or returns a response.
\<close>

datatype post_outcome = Raised string | Responded response

text \<open>
  The network is outside the program: it is a parameter of every handler, giving the
  outcome of the \<open>k\<close>-th call of \<^verbatim>\<open>requests.post\<close> made on the object (counting from 0).
\<close>

type_synonym network = "nat \<Rightarrow> post_outcome"

subsection \<open>Rendering integers and upper-casing\<close>

text \<open>
  Python's \<^verbatim>\<open>str\<close> of an \<^verbatim>\<open>int\<close>, which the f-strings of the handlers apply to the
  widget values: decimal digits, most significant first, with a leading minus sign.
\<close>

definition digit_char :: "nat \<Rightarrow> char" where
  "digit_char d = char_of (48 + d)"

function str_nat :: "nat \<Rightarrow> string" where
  "str_nat n = (if n < 10 then [digit_char n] else str_nat (n div 10) @ [digit_char (n mod 10)])"
  by pat_completeness auto
termination
  by (relation "measure id") auto

definition str_int :: "int \<Rightarrow> string" where
  "str_int i = (if i < 0 then CHR ''-'' # str_nat (nat (- i)) else str_nat (nat i))"

text \<open>
  \<^verbatim>\<open>str.upper\<close> on the ASCII letters; the strings it is applied to are the options of
  the stimulation-mode selector, which are ASCII.
\<close>

definition upper_char :: "char \<Rightarrow> char" where
  "upper_char c =
     (if (97::nat) \<le> of_char c \<and> of_char c \<le> (122::nat) then char_of (of_char c - (32::nat)) else c)"

definition upper :: "string \<Rightarrow> string" where
  "upper s = map upper_char s"

subsection \<open>The object\<close>

text \<open>
  An entry of the dashboard's log: \<^verbatim>\<open>add_response(message)\<close> or
  \<^verbatim>\<open>add_error(label, detail)\<close>.
\<close>

datatype log_entry = Response string | Error string string

text \<open>The value of the stimulation-mode selector, one of its two options.\<close>

datatype stim_mode = Cycle | Active_Press

fun stim_mode_str :: "stim_mode \<Rightarrow> string" where
  "stim_mode_str Cycle = ''Cycle''"
| "stim_mode_str Active_Press = ''Active-Press''"

text \<open>
  The event of a toggle watcher or a button click. The arm handlers ignore it; the
  active-lever handler reads its attribute \<^verbatim>\<open>new\<close>.
\<close>

record event =
  new :: string

record api_config =
  host :: string
  port :: string

record hardware_tab =
  api_connected :: bool
  config :: api_config
  rh_lever_armed :: bool
  arm_rh_lever_button_icon :: string
  lh_lever_armed :: bool
  arm_lh_lever_button_icon :: string
  cue_armed :: bool
  arm_cue_button_icon :: string
  cue_frequency_intslider :: int
  cue_duration_intslider :: int
  pump_armed :: bool
  arm_pump_button_icon :: string
  lick_circuit_armed :: bool
  arm_lick_circuit_button_icon :: string
  microscope_armed :: bool
  arm_microscope_button_icon :: string
  laser_armed :: bool
  arm_laser_button_icon :: string
  stim_mode_widget :: stim_mode
  stim_frequency_slider :: int
  stim_duration_slider :: int
  log :: "log_entry list"
  posts :: "request list"

text \<open>
  \<^verbatim>\<open>HardwareTab.__init__\<close>. The connection flag and the API configuration are set by
  the base class, whose code is not part of the file: they are parameters.
\<close>

definition init :: "bool \<Rightarrow> api_config \<Rightarrow> hardware_tab" where
  "init conn cfg =
     \<lparr> api_connected = conn,
       config = cfg,
       rh_lever_armed = False,
       arm_rh_lever_button_icon = ''lock'',
       lh_lever_armed = False,
       arm_lh_lever_button_icon = ''lock'',
       cue_armed = False,
       arm_cue_button_icon = ''lock'',
       cue_frequency_intslider = 8000,
       cue_duration_intslider = 1600,
       pump_armed = False,
       arm_pump_button_icon = ''lock'',
       lick_circuit_armed = False,
       arm_lick_circuit_button_icon = ''lock'',
       microscope_armed = False,
       arm_microscope_button_icon = ''lock'',
       laser_armed = False,
       arm_laser_button_icon = ''lock'',
       stim_mode_widget = Cycle,
       stim_frequency_slider = 20,
       stim_duration_slider = 30,
       log = [],
       posts = [] \<rparr>"

subsection \<open>The collaborators of the base dashboard\<close>

text \<open>
  Modelled from the spec: \<^verbatim>\<open>Dashboard.add_response\<close>, \<^verbatim>\<open>Dashboard.add_error\<close> and
  \<^verbatim>\<open>Dashboard.get_api_config\<close> are defined in \<^verbatim>\<open>dashboard.py\<close>, which is not among
  the sources. The spec gives them as \<^verbatim>\<open>add_response(message)\<close>,
  \<^verbatim>\<open>add_error(label, detail)\<close>, writing to a log that this component never reads, and
  \<^verbatim>\<open>get_api_config() -> {host, port}\<close>. The log of the model is the sequence of these
  calls.
\<close>

definition add_response :: "string \<Rightarrow> hardware_tab \<Rightarrow> hardware_tab" where
  "add_response message s = s\<lparr>log := log s @ [Response message]\<rparr>"

definition add_error :: "string \<Rightarrow> string \<Rightarrow> hardware_tab \<Rightarrow> hardware_tab" where
  "add_error label detail s = s\<lparr>log := log s @ [Error label detail]\<rparr>"

definition get_api_config :: "hardware_tab \<Rightarrow> api_config" where
  "get_api_config s = config s"

subsection \<open>Posting a command\<close>

text \<open>
  The f-string \<^verbatim>\<open>f"http://{api_config['host']}:{api_config['port']}/serial/command"\<close>.
\<close>

definition command_url :: "api_config \<Rightarrow> string" where
  "command_url c = ''http://'' @ host c @ '':'' @ port c @ ''/serial/command''"

text \<open>
  \<^verbatim>\<open>requests.post(timeout=5, url=..., json=data)\<close>: the call is appended to the trace
  and its outcome is the one the network gives to a call at this position.
\<close>

definition requests_post :: "network \<Rightarrow> api_config \<Rightarrow> string \<Rightarrow> hardware_tab \<Rightarrow> post_outcome \<times> hardware_tab" where
  "requests_post net c data s =
     (net (length (posts s)),
      s\<lparr>posts := posts s @ [\<lparr>timeout = 5, url = command_url c, command = data\<rparr>]\<rparr>)"

text \<open>
  \<^verbatim>\<open>Response.raise_for_status\<close> of the \<^verbatim>\<open>requests\<close> library: it raises
  \<^verbatim>\<open>HTTPError\<close> for a status code from 400 to 599 and returns otherwise. \<open>Some m\<close> is
  the raised error with \<^verbatim>\<open>str(e) = m\<close>, \<open>None\<close> is the normal return.
\<close>

definition raise_for_status :: "response \<Rightarrow> string option" where
  "raise_for_status r =
     (if 400 \<le> status_code r \<and> status_code r < 500
      then Some (str_int (status_code r) @ '' Client Error: '' @ reason r @ '' for url: '' @ resp_url r)
      else if 500 \<le> status_code r \<and> status_code r < 600
      then Some (str_int (status_code r) @ '' Server Error: '' @ reason r @ '' for url: '' @ resp_url r)
      else None)"

text \<open>
  The two statements every handler repeats inside its \<^verbatim>\<open>try\<close>:
  \<^verbatim>\<open>response = requests.post(...); response.raise_for_status()\<close>.
  \<open>Inl m\<close> is an exception raised by either, with \<^verbatim>\<open>str(e) = m\<close>.
\<close>

definition post_and_check :: "network \<Rightarrow> api_config \<Rightarrow> string \<Rightarrow> hardware_tab \<Rightarrow> (string + unit) \<times> hardware_tab" where
  "post_and_check net c data s =
     (case requests_post net c data s of
        (Raised m, s') \<Rightarrow> (Inl m, s')
      | (Responded r, s') \<Rightarrow>
          (case raise_for_status r of Some m \<Rightarrow> (Inl m, s') | None \<Rightarrow> (Inr (), s')))"

subsection \<open>The handlers\<close>

text \<open>
  Every handler returns at once, after one call of \<^verbatim>\<open>add_response\<close>, when the
  dashboard is not connected. Otherwise its \<^verbatim>\<open>try\<close> block runs; an exception raised
  inside it is caught by \<^verbatim>\<open>except Exception as e\<close>, which calls \<^verbatim>\<open>add_error\<close>
  with the handler's label and \<^verbatim>\<open>str(e)\<close>. The statement \<^verbatim>\<open>import requests\<close> that
  opens each \<^verbatim>\<open>try\<close> block is taken to succeed.
\<close>

text \<open>
  The text of the \<^verbatim>\<open>UnboundLocalError\<close> that reading the variable \<^verbatim>\<open>data\<close> raises
  when no branch has assigned it (the wording of CPython 3.11 and later).
\<close>

definition unbound_data :: string where
  "unbound_data = ''cannot access local variable '' @ [CHR 0x27] @ ''data'' @ [CHR 0x27]
     @ '' where it is not associated with a value''"

text \<open>
  \<^verbatim>\<open>HardwareTab.set_active_lever\<close>. The command is chosen before the \<^verbatim>\<open>try\<close>
  block; when the selection is neither lever, \<^verbatim>\<open>data\<close> stays unassigned and the
  evaluation of the arguments of \<^verbatim>\<open>requests.post\<close> raises inside the \<^verbatim>\<open>try\<close>
  block, before any request is made.
\<close>

definition set_active_lever :: "network \<Rightarrow> event \<Rightarrow> hardware_tab \<Rightarrow> hardware_tab" where
  "set_active_lever net ev s =
     (if \<not> api_connected s then add_response ''Please connect to the API first.'' s
      else
        let api_config = get_api_config s;
            data = (if new ev = ''LH Lever'' then Some ''ACTIVE_LEVER_LH''
                    else if new ev = ''RH Lever'' then Some ''ACTIVE_LEVER_RH''
                    else None)
        in case data of
             None \<Rightarrow> add_error ''Failed to set active lever'' unbound_data s
           | Some d \<Rightarrow>
               (case post_and_check net api_config d s of
                  (Inl e, s2) \<Rightarrow> add_error ''Failed to set active lever'' e s2
                | (Inr _, s2) \<Rightarrow> s2))"

text \<open>\<^verbatim>\<open>HardwareTab.arm_rh_lever\<close>: the toggle of the right-hand lever.\<close>

definition arm_rh_lever :: "network \<Rightarrow> event option \<Rightarrow> hardware_tab \<Rightarrow> hardware_tab" where
  "arm_rh_lever net _ s =
     (if \<not> api_connected s then add_response ''Please connect to the API first.'' s
      else
        let api_config = get_api_config s;
            (data, s1) =
              (if \<not> rh_lever_armed s
               then (''ARM_LEVER_RH'', s\<lparr>rh_lever_armed := True, arm_rh_lever_button_icon := ''unlock''\<rparr>)
               else (''DISARM_LEVER_RH'', s\<lparr>rh_lever_armed := False, arm_rh_lever_button_icon := ''lock''\<rparr>))
        in case post_and_check net api_config data s1 of
             (Inl e, s2) \<Rightarrow> add_error ''Failed to arm or disarm RH lever'' e s2
           | (Inr _, s2) \<Rightarrow> s2)"

text \<open>\<^verbatim>\<open>HardwareTab.arm_lh_lever\<close>: the toggle of the left-hand lever.\<close>

definition arm_lh_lever :: "network \<Rightarrow> event option \<Rightarrow> hardware_tab \<Rightarrow> hardware_tab" where
  "arm_lh_lever net _ s =
     (if \<not> api_connected s then add_response ''Please connect to the API first.'' s
      else
        let api_config = get_api_config s;
            (data, s1) =
              (if \<not> lh_lever_armed s
               then (''ARM_LEVER_LH'', s\<lparr>lh_lever_armed := True, arm_lh_lever_button_icon := ''unlock''\<rparr>)
               else (''DISARM_LEVER_LH'', s\<lparr>lh_lever_armed := False, arm_lh_lever_button_icon := ''lock''\<rparr>))
        in case post_and_check net api_config data s1 of
             (Inl e, s2) \<Rightarrow> add_error ''Failed to arm or disarm LH lever'' e s2
           | (Inr _, s2) \<Rightarrow> s2)"

text \<open>\<^verbatim>\<open>HardwareTab.arm_cs\<close>: the toggle of the cue.\<close>

definition arm_cs :: "network \<Rightarrow> event option \<Rightarrow> hardware_tab \<Rightarrow> hardware_tab" where
  "arm_cs net _ s =
     (if \<not> api_connected s then add_response ''Please connect to the API first.'' s
      else
        let api_config = get_api_config s;
            (data, s1) =
              (if \<not> cue_armed s
               then (''ARM_CS'', s\<lparr>cue_armed := True, arm_cue_button_icon := ''unlock''\<rparr>)
               else (''DISARM_CS'', s\<lparr>cue_armed := False, arm_cue_button_icon := ''lock''\<rparr>))
        in case post_and_check net api_config data s1 of
             (Inl e, s2) \<Rightarrow> add_error ''Failed to arm or disarm CS'' e s2
           | (Inr _, s2) \<Rightarrow> s2)"

text \<open>
  \<^verbatim>\<open>HardwareTab.send_cue_configuration\<close>: two posts in one \<^verbatim>\<open>try\<close> block; an
  exception at the first skips the second.
\<close>

definition send_cue_configuration :: "network \<Rightarrow> event option \<Rightarrow> hardware_tab \<Rightarrow> hardware_tab" where
  "send_cue_configuration net _ s =
     (if \<not> api_connected s then add_response ''Please connect to the API first.'' s
      else
        let api_config = get_api_config s
        in case post_and_check net api_config
                  (''SET_FREQUENCY_CS:'' @ str_int (cue_frequency_intslider s)) s of
             (Inl e, s1) \<Rightarrow> add_error ''Failed to send CS configuration'' e s1
           | (Inr _, s1) \<Rightarrow>
               (case post_and_check net api_config
                       (''SET_DURATION_CS:'' @ str_int (cue_duration_intslider s1)) s1 of
                  (Inl e, s2) \<Rightarrow> add_error ''Failed to send CS configuration'' e s2
                | (Inr _, s2) \<Rightarrow> s2))"

text \<open>\<^verbatim>\<open>HardwareTab.arm_pump\<close>: the toggle of the pump.\<close>

definition arm_pump :: "network \<Rightarrow> event option \<Rightarrow> hardware_tab \<Rightarrow> hardware_tab" where
  "arm_pump net _ s =
     (if \<not> api_connected s then add_response ''Please connect to the API first.'' s
      else
        let api_config = get_api_config s;
            (data, s1) =
              (if \<not> pump_armed s
               then (''ARM_PUMP'', s\<lparr>pump_armed := True, arm_pump_button_icon := ''unlock''\<rparr>)
               else (''DISARM_PUMP'', s\<lparr>pump_armed := False, arm_pump_button_icon := ''lock''\<rparr>))
        in case post_and_check net api_config data s1 of
             (Inl e, s2) \<Rightarrow> add_error ''Failed to arm or disarm pump'' e s2
           | (Inr _, s2) \<Rightarrow> s2)"

text \<open>\<^verbatim>\<open>HardwareTab.arm_lick_circuit\<close>: the toggle of the lick circuit.\<close>

definition arm_lick_circuit :: "network \<Rightarrow> event option \<Rightarrow> hardware_tab \<Rightarrow> hardware_tab" where
  "arm_lick_circuit net _ s =
     (if \<not> api_connected s then add_response ''Please connect to the API first.'' s
      else
        let api_config = get_api_config s;
            (data, s1) =
              (if \<not> lick_circuit_armed s
               then (''ARM_LICK_CIRCUIT'', s\<lparr>lick_circuit_armed := True, arm_lick_circuit_button_icon := ''unlock''\<rparr>)
               else (''DISARM_LICK_CIRCUIT'', s\<lparr>lick_circuit_armed := False, arm_lick_circuit_button_icon := ''lock''\<rparr>))
        in case post_and_check net api_config data s1 of
             (Inl e, s2) \<Rightarrow> add_error ''Failed to arm or disarm lick circuit'' e s2
           | (Inr _, s2) \<Rightarrow> s2)"

text \<open>\<^verbatim>\<open>HardwareTab.arm_frames\<close>: the toggle of the imaging timestamp receptor.\<close>

definition arm_frames :: "network \<Rightarrow> event option \<Rightarrow> hardware_tab \<Rightarrow> hardware_tab" where
  "arm_frames net _ s =
     (if \<not> api_connected s then add_response ''Please connect to the API first.'' s
      else
        let api_config = get_api_config s;
            (data, s1) =
              (if \<not> microscope_armed s
               then (''ARM_FRAME'', s\<lparr>microscope_armed := True, arm_microscope_button_icon := ''unlock''\<rparr>)
               else (''DISARM_FRAME'', s\<lparr>microscope_armed := False, arm_microscope_button_icon := ''lock''\<rparr>))
        in case post_and_check net api_config data s1 of
             (Inl e, s2) \<Rightarrow> add_error ''Failed to arm or disarm 2P'' e s2
           | (Inr _, s2) \<Rightarrow> s2)"

text \<open>\<^verbatim>\<open>HardwareTab.arm_laser\<close>: the toggle of the laser.\<close>

definition arm_laser :: "network \<Rightarrow> event option \<Rightarrow> hardware_tab \<Rightarrow> hardware_tab" where
  "arm_laser net _ s =
     (if \<not> api_connected s then add_response ''Please connect to the API first.'' s
      else
        let api_config = get_api_config s;
            (data, s1) =
              (if \<not> laser_armed s
               then (''ARM_LASER'', s\<lparr>laser_armed := True, arm_laser_button_icon := ''unlock''\<rparr>)
               else (''DISARM_LASER'', s\<lparr>laser_armed := False, arm_laser_button_icon := ''lock''\<rparr>))
        in case post_and_check net api_config data s1 of
             (Inl e, s2) \<Rightarrow> add_error ''Failed to arm or disarm laser'' e s2
           | (Inr _, s2) \<Rightarrow> s2)"

text \<open>
  \<^verbatim>\<open>HardwareTab.send_laser_configuration\<close>: three posts in one \<^verbatim>\<open>try\<close> block
  (mode, duration, frequency); an exception at one skips the rest.
\<close>

definition send_laser_configuration :: "network \<Rightarrow> event option \<Rightarrow> hardware_tab \<Rightarrow> hardware_tab" where
  "send_laser_configuration net _ s =
     (if \<not> api_connected s then add_response ''Please connect to the API first.'' s
      else
        let api_config = get_api_config s
        in case post_and_check net api_config
                  (''LASER_STIM_MODE_'' @ upper (stim_mode_str (stim_mode_widget s))) s of
             (Inl e, s1) \<Rightarrow> add_error ''Failed to send laser configuration'' e s1
           | (Inr _, s1) \<Rightarrow>
               (case post_and_check net api_config
                       (''LASER_DURATION:'' @ str_int (stim_duration_slider s1)) s1 of
                  (Inl e, s2) \<Rightarrow> add_error ''Failed to send laser configuration'' e s2
                | (Inr _, s2) \<Rightarrow>
                    (case post_and_check net api_config
                            (''LASER_FREQUENCY:'' @ str_int (stim_frequency_slider s2)) s2 of
                       (Inl e, s3) \<Rightarrow> add_error ''Failed to send laser configuration'' e s3
                     | (Inr _, s3) \<Rightarrow> s3)))"

subsection \<open>Arming a list of devices\<close>

text \<open>
  The dictionary \<^verbatim>\<open>self.hardware_components\<close> of \<^verbatim>\<open>__init__\<close>, in the order it is
  written; \<open>map_of\<close> is \<^verbatim>\<open>dict.get\<close>.
\<close>

definition hardware_components :: "(string \<times> (network \<Rightarrow> event option \<Rightarrow> hardware_tab \<Rightarrow> hardware_tab)) list" where
  "hardware_components =
     [(''LH Lever'', arm_lh_lever),
      (''RH Lever'', arm_rh_lever),
      (''Cue'', arm_cs),
      (''Pump'', arm_pump),
      (''Lick Circuit'', arm_lick_circuit),
      (''Laser'', arm_laser),
      (''Imaging Timestamp Receptor'', arm_frames)]"

text \<open>
  \<^verbatim>\<open>HardwareTab.arm_devices\<close>: the loop over the names; a name the dictionary does not
  have gives \<^verbatim>\<open>None\<close>, which the \<^verbatim>\<open>if\<close> skips; a handler is called with the
  event \<^verbatim>\<open>None\<close>.
\<close>

fun arm_devices :: "network \<Rightarrow> string list \<Rightarrow> hardware_tab \<Rightarrow> hardware_tab" where
  "arm_devices net [] s = s"
| "arm_devices net (device # devices) s =
     (case map_of hardware_components device of
        None \<Rightarrow> arm_devices net devices s
      | Some arm_device \<Rightarrow> arm_devices net devices (arm_device net None s))"

subsection \<open>The square wave of the laser preview\<close>

text \<open>
  \<^verbatim>\<open>plot_square_wave\<close> computes in double-precision numbers, with operations of
  Python and numpy that are not part of the file. The function is modelled over a type
  \<open>'f\<close> of numbers with these operations as parameters; the doubles themselves are the
  instance \<open>double_ops\<close> below.
  \<^item> \<open>linspace_point i\<close> is element \<open>i\<close> of \<^verbatim>\<open>np.linspace(0, total_duration, 1000)\<close>;
  \<^item> \<open>int_div a b\<close> is Python's \<^verbatim>\<open>a / b\<close> on two integers, for \<open>b\<close> other than 0;
  \<^item> \<open>fl_div x n\<close> is \<^verbatim>\<open>x / n\<close> for a number and an integer other than 0;
  \<^item> \<open>fl_mod x y\<close> is \<^verbatim>\<open>x % y\<close> and \<open>fl_less x y\<close> is \<^verbatim>\<open>x < y\<close>.
\<close>

record 'f float_ops =
  linspace_point :: "nat \<Rightarrow> 'f"
  int_div :: "int \<Rightarrow> int \<Rightarrow> 'f"
  fl_div :: "'f \<Rightarrow> int \<Rightarrow> 'f"
  fl_mod :: "'f \<Rightarrow> 'f \<Rightarrow> 'f"
  fl_less :: "'f \<Rightarrow> 'f \<Rightarrow> bool"

datatype py_error = ZeroDivisionError

text \<open>\<^verbatim>\<open>np.linspace(0, total_duration, num)\<close>: an array of \<open>num\<close> points.\<close>

definition np_linspace :: "'f float_ops \<Rightarrow> nat \<Rightarrow> 'f list" where
  "np_linspace A num = map (linspace_point A) [0..<num]"

text \<open>
  The slice assignment \<^verbatim>\<open>xs[lo:hi] = v\<close> of a scalar, for bounds that are not
  negative: the elements at the indices from \<open>lo\<close> up to, not including, \<open>hi\<close> that
  the array has.
\<close>

definition slice_assign :: "'a list \<Rightarrow> nat \<Rightarrow> nat \<Rightarrow> 'a \<Rightarrow> 'a list" where
  "slice_assign xs lo hi v =
     (let l = min lo (length xs); h = max l (min hi (length xs))
      in take l xs @ replicate (h - l) v @ drop h xs)"

text \<open>
  The loop \<^verbatim>\<open>for i, time_point in enumerate(t)\<close> of the general case. The samples are
  the numbers 0.0 and 1.0, written as integers.
\<close>

fun wave_loop :: "'f float_ops \<Rightarrow> 'f \<Rightarrow> (nat \<times> 'f) list \<Rightarrow> int list \<Rightarrow> int list" where
  "wave_loop A period [] square_wave = square_wave"
| "wave_loop A period ((i, time_point) # rest) square_wave =
     wave_loop A period rest
       (if fl_less A (fl_mod A time_point period) (fl_div A period 2)
        then square_wave[i := 1] else square_wave)"

text \<open>
  \<^verbatim>\<open>HardwareTab.plot_square_wave\<close>. The result is the pair of arrays handed to
  \<^verbatim>\<open>plt.plot\<close>: the sample times and the wave. \<^verbatim>\<open>1 / frequency\<close> raises
  \<^verbatim>\<open>ZeroDivisionError\<close> for the frequency 0, which nothing catches.
\<close>

definition plot_square_wave :: "'f float_ops \<Rightarrow> int \<Rightarrow> py_error + ('f list \<times> int list)" where
  "plot_square_wave A frequency =
     (let t = np_linspace A 1000;
          square_wave = replicate (length t) 0
      in if frequency = 1 then Inr (t, slice_assign square_wave 1 999 1)
         else if frequency = 0 then Inl ZeroDivisionError
         else let period = int_div A 1 frequency
              in Inr (t, wave_loop A period (enumerate 0 t) square_wave))"

subsection \<open>Double-precision numbers\<close>













subsection \<open>The devices\<close>

text \<open>
  The seven devices with an arm handler, with the attributes, the handler, the two
  commands and the error label that the source gives each of them.
\<close>

datatype device = LH_Lever | RH_Lever | Cue | Pump | Lick_Circuit | Laser | Imaging_Timestamp_Receptor

fun device_name :: "device \<Rightarrow> string" where
  "device_name LH_Lever = ''LH Lever''"
| "device_name RH_Lever = ''RH Lever''"
| "device_name Cue = ''Cue''"
| "device_name Pump = ''Pump''"
| "device_name Lick_Circuit = ''Lick Circuit''"
| "device_name Laser = ''Laser''"
| "device_name Imaging_Timestamp_Receptor = ''Imaging Timestamp Receptor''"

fun handler :: "device \<Rightarrow> network \<Rightarrow> event option \<Rightarrow> hardware_tab \<Rightarrow> hardware_tab" where
  "handler LH_Lever = arm_lh_lever"
| "handler RH_Lever = arm_rh_lever"
| "handler Cue = arm_cs"
| "handler Pump = arm_pump"
| "handler Lick_Circuit = arm_lick_circuit"
| "handler Laser = arm_laser"
| "handler Imaging_Timestamp_Receptor = arm_frames"

fun armed :: "device \<Rightarrow> hardware_tab \<Rightarrow> bool" where
  "armed LH_Lever = lh_lever_armed"
| "armed RH_Lever = rh_lever_armed"
| "armed Cue = cue_armed"
| "armed Pump = pump_armed"
| "armed Lick_Circuit = lick_circuit_armed"
| "armed Laser = laser_armed"
| "armed Imaging_Timestamp_Receptor = microscope_armed"

fun icon :: "device \<Rightarrow> hardware_tab \<Rightarrow> string" where
  "icon LH_Lever = arm_lh_lever_button_icon"
| "icon RH_Lever = arm_rh_lever_button_icon"
| "icon Cue = arm_cue_button_icon"
| "icon Pump = arm_pump_button_icon"
| "icon Lick_Circuit = arm_lick_circuit_button_icon"
| "icon Laser = arm_laser_button_icon"
| "icon Imaging_Timestamp_Receptor = arm_microscope_button_icon"

fun arm_command :: "device \<Rightarrow> string" where
  "arm_command LH_Lever = ''ARM_LEVER_LH''"
| "arm_command RH_Lever = ''ARM_LEVER_RH''"
| "arm_command Cue = ''ARM_CS''"
| "arm_command Pump = ''ARM_PUMP''"
| "arm_command Lick_Circuit = ''ARM_LICK_CIRCUIT''"
| "arm_command Laser = ''ARM_LASER''"
| "arm_command Imaging_Timestamp_Receptor = ''ARM_FRAME''"

fun disarm_command :: "device \<Rightarrow> string" where
  "disarm_command LH_Lever = ''DISARM_LEVER_LH''"
| "disarm_command RH_Lever = ''DISARM_LEVER_RH''"
| "disarm_command Cue = ''DISARM_CS''"
| "disarm_command Pump = ''DISARM_PUMP''"
| "disarm_command Lick_Circuit = ''DISARM_LICK_CIRCUIT''"
| "disarm_command Laser = ''DISARM_LASER''"
| "disarm_command Imaging_Timestamp_Receptor = ''DISARM_FRAME''"

fun label :: "device \<Rightarrow> string" where
  "label LH_Lever = ''Failed to arm or disarm LH lever''"
| "label RH_Lever = ''Failed to arm or disarm RH lever''"
| "label Cue = ''Failed to arm or disarm CS''"
| "label Pump = ''Failed to arm or disarm pump''"
| "label Lick_Circuit = ''Failed to arm or disarm lick circuit''"
| "label Laser = ''Failed to arm or disarm laser''"
| "label Imaging_Timestamp_Receptor = ''Failed to arm or disarm 2P''"

text \<open>The assignment of a device's flag and icon, as the two branches of a handler make it.\<close>

fun set_armed :: "device \<Rightarrow> bool \<Rightarrow> string \<Rightarrow> hardware_tab \<Rightarrow> hardware_tab" where
  "set_armed LH_Lever b i s = s\<lparr>lh_lever_armed := b, arm_lh_lever_button_icon := i\<rparr>"
| "set_armed RH_Lever b i s = s\<lparr>rh_lever_armed := b, arm_rh_lever_button_icon := i\<rparr>"
| "set_armed Cue b i s = s\<lparr>cue_armed := b, arm_cue_button_icon := i\<rparr>"
| "set_armed Pump b i s = s\<lparr>pump_armed := b, arm_pump_button_icon := i\<rparr>"
| "set_armed Lick_Circuit b i s = s\<lparr>lick_circuit_armed := b, arm_lick_circuit_button_icon := i\<rparr>"
| "set_armed Laser b i s = s\<lparr>laser_armed := b, arm_laser_button_icon := i\<rparr>"
| "set_armed Imaging_Timestamp_Receptor b i s = s\<lparr>microscope_armed := b, arm_microscope_button_icon := i\<rparr>"

text \<open>The state a handler's toggle leaves, before its post.\<close>

definition toggled :: "device \<Rightarrow> hardware_tab \<Rightarrow> hardware_tab" where
  "toggled d s = (if \<not> armed d s then set_armed d True ''unlock'' s else set_armed d False ''lock'' s)"

text \<open>The command a handler's toggle selects.\<close>

definition toggle_command :: "device \<Rightarrow> hardware_tab \<Rightarrow> string" where
  "toggle_command d s = (if \<not> armed d s then arm_command d else disarm_command d)"

text \<open>The request that carries a command of the object.\<close>

definition request_of :: "hardware_tab \<Rightarrow> string \<Rightarrow> request" where
  "request_of s c = \<lparr>timeout = 5, url = command_url (get_api_config s), command = c\<rparr>"

text \<open>
  The exception, if any, that the pair \<^verbatim>\<open>requests.post\<close>, \<^verbatim>\<open>raise_for_status\<close>
  raises on an outcome of the network.
\<close>

fun post_error :: "post_outcome \<Rightarrow> string option" where
  "post_error (Raised m) = Some m"
| "post_error (Responded r) = raise_for_status r"

subsection \<open>Sequences of calls\<close>

text \<open>
  What can happen to the object: a call of one of its handlers, or a change made from
  outside (the base dashboard connecting or disconnecting, the operator setting a
  widget).
\<close>

datatype call =
    Set_Active_Lever event
  | Arm_RH_Lever "event option"
  | Arm_LH_Lever "event option"
  | Arm_CS "event option"
  | Send_Cue_Configuration "event option"
  | Arm_Pump "event option"
  | Arm_Lick_Circuit "event option"
  | Arm_Frames "event option"
  | Arm_Laser "event option"
  | Send_Laser_Configuration "event option"
  | Arm_Devices "string list"
  | Connection bool api_config
  | Cue_Frequency int
  | Cue_Duration int
  | Stim_Mode stim_mode
  | Stim_Frequency int
  | Stim_Duration int

fun step :: "network \<Rightarrow> call \<Rightarrow> hardware_tab \<Rightarrow> hardware_tab" where
  "step net (Set_Active_Lever ev) s = set_active_lever net ev s"
| "step net (Arm_RH_Lever ev) s = arm_rh_lever net ev s"
| "step net (Arm_LH_Lever ev) s = arm_lh_lever net ev s"
| "step net (Arm_CS ev) s = arm_cs net ev s"
| "step net (Send_Cue_Configuration ev) s = send_cue_configuration net ev s"
| "step net (Arm_Pump ev) s = arm_pump net ev s"
| "step net (Arm_Lick_Circuit ev) s = arm_lick_circuit net ev s"
| "step net (Arm_Frames ev) s = arm_frames net ev s"
| "step net (Arm_Laser ev) s = arm_laser net ev s"
| "step net (Send_Laser_Configuration ev) s = send_laser_configuration net ev s"
| "step net (Arm_Devices devices) s = arm_devices net devices s"
| "step net (Connection b c) s = s\<lparr>api_connected := b, config := c\<rparr>"
| "step net (Cue_Frequency v) s = s\<lparr>cue_frequency_intslider := v\<rparr>"
| "step net (Cue_Duration v) s = s\<lparr>cue_duration_intslider := v\<rparr>"
| "step net (Stim_Mode v) s = s\<lparr>stim_mode_widget := v\<rparr>"
| "step net (Stim_Frequency v) s = s\<lparr>stim_frequency_slider := v\<rparr>"
| "step net (Stim_Duration v) s = s\<lparr>stim_duration_slider := v\<rparr>"

fun run :: "network \<Rightarrow> call list \<Rightarrow> hardware_tab \<Rightarrow> hardware_tab" where
  "run net [] s = s"
| "run net (c # cs) s = run net cs (step net c s)"

text \<open>
  The agreement of a device's flag with its icon: the icon is \<^verbatim>\<open>unlock\<close> when the
  flag is set and \<^verbatim>\<open>lock\<close> when it is not.
\<close>

definition agrees :: "device \<Rightarrow> hardware_tab \<Rightarrow> bool" where
  "agrees d s = (icon d s = (if armed d s then ''unlock'' else ''lock''))"

subsection \<open>Networks and a configuration to run the model on\<close>

text \<open>The network that gives every post the same outcome.\<close>

definition always :: "post_outcome \<Rightarrow> network" where
  "always x k = x"

text \<open>The network that gives the outcomes of a list in turn, then a connection error.\<close>

definition outcomes :: "post_outcome list \<Rightarrow> network" where
  "outcomes xs k = (if k < length xs then xs ! k else Raised ''Connection refused'')"

definition status :: "int \<Rightarrow> string \<Rightarrow> post_outcome" where
  "status c r = Responded \<lparr>status_code = c, reason = r, resp_url = ''http://localhost:8000/serial/command''\<rparr>"

definition local_config :: api_config where
  "local_config = \<lparr>host = ''localhost'', port = ''8000''\<rparr>"

text \<open>
  The network on which every post succeeds, a connected object as \<^verbatim>\<open>__init__\<close>
  leaves it, and that object after one call of the pump's handler.
\<close>

definition ok :: network where
  "ok = always (status 200 ''OK'')"

definition connected_tab :: hardware_tab where
  "connected_tab = init True local_config"

definition pump_armed_tab :: hardware_tab where
  "pump_armed_tab = arm_pump ok None connected_tab"

subsection \<open>Statuses\<close>

text \<open>The status codes on which \<^verbatim>\<open>raise_for_status\<close> raises.\<close>

definition error_status :: "int \<Rightarrow> bool" where
  "error_status c = (400 \<le> c \<and> c < 600)"

text \<open>
  The calls that are a call of one handler that posts: every handler but
  \<^verbatim>\<open>arm_devices\<close>, which calls other handlers, with \<^verbatim>\<open>set_active_lever\<close> on a
  selection of one of the two levers.
\<close>

fun issues_post :: "call \<Rightarrow> bool" where
  "issues_post (Set_Active_Lever ev) = (new ev = ''LH Lever'' \<or> new ev = ''RH Lever'')"
| "issues_post (Arm_RH_Lever ev) = True"
| "issues_post (Arm_LH_Lever ev) = True"
| "issues_post (Arm_CS ev) = True"
| "issues_post (Send_Cue_Configuration ev) = True"
| "issues_post (Arm_Pump ev) = True"
| "issues_post (Arm_Lick_Circuit ev) = True"
| "issues_post (Arm_Frames ev) = True"
| "issues_post (Arm_Laser ev) = True"
| "issues_post (Send_Laser_Configuration ev) = True"
| "issues_post (Arm_Devices devices) = False"
| "issues_post (Connection b c) = False"
| "issues_post (Cue_Frequency v) = False"
| "issues_post (Cue_Duration v) = False"
| "issues_post (Stim_Mode v) = False"
| "issues_post (Stim_Frequency v) = False"
| "issues_post (Stim_Duration v) = False"

text \<open>
  How a call that took the object \<open>s\<close> to \<open>s'\<close> treated the responses \<open>r\<close> to its
  posts: it made a post; it left the log as it was exactly when none of the responses to
  its posts had an error status; and it added at most one entry, an error.
\<close>

definition status_result :: "(nat \<Rightarrow> response) \<Rightarrow> hardware_tab \<Rightarrow> hardware_tab \<Rightarrow> bool" where
  "status_result r s s' =
     (length (posts s) < length (posts s')
      \<and> (log s' = log s) =
          list_all (\<lambda>k. \<not> error_status (status_code (r k)))
            [length (posts s)..<length (posts s')]
      \<and> (log s' = log s \<or> (\<exists>l e. log s' = log s @ [Error l e])))"

text \<open>The responses of a server that answers 500 to the second post and 200 to the others.\<close>

definition second_fails :: "nat \<Rightarrow> response" where
  "second_fails k =
     \<lparr>status_code = (if k = 1 then 500 else 200),
      reason = (if k = 1 then ''Internal Server Error'' else ''OK''),
      resp_url = ''http://localhost:8000/serial/command''\<rparr>"

section \<open>Properties\<close>

subsection \<open>What a post and a handler do\<close>

lemmas handler_defs = arm_rh_lever_def arm_lh_lever_def arm_cs_def arm_pump_def
  arm_lick_circuit_def arm_frames_def arm_laser_def

lemma post_and_check_eq:
  "post_and_check net c data s =
     ((case post_error (net (length (posts s))) of Some m \<Rightarrow> Inl m | None \<Rightarrow> Inr ()),
      s\<lparr>posts := posts s @ [\<lparr>timeout = 5, url = command_url c, command = data\<rparr>]\<rparr>)"
  by (cases "net (length (posts s))")
     (simp_all add: post_and_check_def requests_post_def split: option.splits)

lemma handler_disconnected:
  "\<not> api_connected s \<Longrightarrow> handler d net ev s = s\<lparr>log := log s @ [Response ''Please connect to the API first.'']\<rparr>"
  by (cases d) (simp_all add: handler_defs add_response_def)

lemma handler_connected:
  "api_connected s \<Longrightarrow>
   handler d net ev s =
     (case post_error (net (length (posts s))) of
        Some e \<Rightarrow> (toggled d s)\<lparr>posts := posts s @ [request_of s (toggle_command d s)],
                                 log := log s @ [Error (label d) e]\<rparr>
      | None \<Rightarrow> (toggled d s)\<lparr>posts := posts s @ [request_of s (toggle_command d s)]\<rparr>)"
  by (cases d)
     (simp_all add: handler_defs post_and_check_eq toggled_def toggle_command_def request_of_def
        add_error_def Let_def split: option.splits)

lemma agrees_handler: "agrees d s \<Longrightarrow> agrees d (handler d' net ev s)"
proof (cases "api_connected s")
  case False
  assume "agrees d s"
  with False show ?thesis
    by (cases d) (simp_all add: handler_disconnected agrees_def)
next
  case True
  assume a: "agrees d s"
  have t: "agrees d (toggled d' s)"
    using a by (cases d; cases d') (simp_all add: agrees_def toggled_def)
  have p: "\<And>x f g. agrees d (x\<lparr>posts := f, log := g\<rparr>) = agrees d x"
    "\<And>x f. agrees d (x\<lparr>posts := f\<rparr>) = agrees d x"
    by (cases d; simp add: agrees_def)+
  show ?thesis
    using t by (simp add: handler_connected [OF True] p split: option.splits)
qed

subsection \<open>The dictionary of arm handlers\<close>

lemma hardware_components_get:
  "map_of hardware_components n =
     (if n = ''LH Lever'' then Some arm_lh_lever
      else if n = ''RH Lever'' then Some arm_rh_lever
      else if n = ''Cue'' then Some arm_cs
      else if n = ''Pump'' then Some arm_pump
      else if n = ''Lick Circuit'' then Some arm_lick_circuit
      else if n = ''Laser'' then Some arm_laser
      else if n = ''Imaging Timestamp Receptor'' then Some arm_frames
      else None)"
  by (simp add: hardware_components_def)


lemma hardware_components_Some:
  assumes "map_of hardware_components n = Some h"
  shows "\<exists>d. n = device_name d \<and> h = handler d"
proof -
  consider "n = ''LH Lever''" | "n = ''RH Lever''" | "n = ''Cue''" | "n = ''Pump''"
    | "n = ''Lick Circuit''" | "n = ''Laser''" | "n = ''Imaging Timestamp Receptor''"
    using assms unfolding hardware_components_get by (simp split: if_splits)
  then show ?thesis
  proof cases
    case 1
    with assms have "n = device_name LH_Lever \<and> h = handler LH_Lever"
      by (simp add: hardware_components_get)
    then show ?thesis ..
  next
    case 2
    with assms have "n = device_name RH_Lever \<and> h = handler RH_Lever"
      by (simp add: hardware_components_get)
    then show ?thesis ..
  next
    case 3
    with assms have "n = device_name Cue \<and> h = handler Cue"
      by (simp add: hardware_components_get)
    then show ?thesis ..
  next
    case 4
    with assms have "n = device_name Pump \<and> h = handler Pump"
      by (simp add: hardware_components_get)
    then show ?thesis ..
  next
    case 5
    with assms have "n = device_name Lick_Circuit \<and> h = handler Lick_Circuit"
      by (simp add: hardware_components_get)
    then show ?thesis ..
  next
    case 6
    with assms have "n = device_name Laser \<and> h = handler Laser"
      by (simp add: hardware_components_get)
    then show ?thesis ..
  next
    case 7
    with assms have "n = device_name Imaging_Timestamp_Receptor \<and> h = handler Imaging_Timestamp_Receptor"
      by (simp add: hardware_components_get)
    then show ?thesis ..
  qed
qed

lemma hardware_components_name: "map_of hardware_components (device_name d) = Some (handler d)"
  by (cases d) (simp_all add: hardware_components_get)

lemma hardware_components_None:
  "(map_of hardware_components n = None) = (n \<notin> range device_name)"
proof
  assume a: "map_of hardware_components n = None"
  show "n \<notin> range device_name"
  proof
    assume "n \<in> range device_name"
    then obtain d where "n = device_name d" by blast
    with a show False by (simp add: hardware_components_name)
  qed
next
  assume a: "n \<notin> range device_name"
  show "map_of hardware_components n = None"
  proof (cases "map_of hardware_components n")
    case None then show ?thesis .
  next
    case (Some h)
    then obtain d where "n = device_name d" using hardware_components_Some by blast
    with a show ?thesis by blast
  qed
qed

lemma agrees_arm_devices: "agrees d s \<Longrightarrow> agrees d (arm_devices net devices s)"
proof (induction devices arbitrary: s)
  case Nil
  then show ?case by simp
next
  case (Cons n ns)
  show ?case
  proof (cases "map_of hardware_components n")
    case None
    then show ?thesis using Cons by simp
  next
    case (Some h)
    then obtain d' where "h = handler d'" using hardware_components_Some by blast
    then show ?thesis using Some Cons by (simp add: agrees_handler)
  qed
qed

lemma toggled_fields:
  "api_connected (toggled d s) = api_connected s"
  "posts (toggled d s) = posts s"
  "log (toggled d s) = log s"
  "get_api_config (toggled d s) = get_api_config s"
  by (cases d; simp add: toggled_def get_api_config_def)+

lemma toggled_armed: "armed d (toggled d s) = (\<not> armed d s)"
  by (cases d) (simp_all add: toggled_def)

lemma toggled_icon: "icon d (toggled d s) = (if armed d s then ''lock'' else ''unlock'')"
  by (cases d) (simp_all add: toggled_def)

lemma armed_posts_log [simp]:
  "armed d (s\<lparr>posts := p\<rparr>) = armed d s"
  "armed d (s\<lparr>log := l\<rparr>) = armed d s"
  "icon d (s\<lparr>posts := p\<rparr>) = icon d s"
  "icon d (s\<lparr>log := l\<rparr>) = icon d s"
  by (cases d; simp)+

lemma handler_connected_facts:
  assumes "api_connected s"
  shows "api_connected (handler d net ev s)"
    and "armed d (handler d net ev s) = (\<not> armed d s)"
    and "icon d (handler d net ev s) = (if armed d s then ''lock'' else ''unlock'')"
    and "posts (handler d net ev s) = posts s @ [request_of s (toggle_command d s)]"
    and "get_api_config (handler d net ev s) = get_api_config s"
  using assms
  by (simp_all add: handler_connected toggled_fields toggled_armed toggled_icon get_api_config_def
        split: option.splits)
     (cases d; simp add: toggled_def)+

lemma post_error_ok: "post_error (ok k) = None"
  by (simp add: ok_def always_def status_def raise_for_status_def)

lemma connected_tab_fields:
  "api_connected connected_tab" "posts connected_tab = []" "log connected_tab = []"
  "pump_armed connected_tab = False" "get_api_config connected_tab = local_config"
  "config connected_tab = local_config" "arm_pump_button_icon connected_tab = ''lock''"
  by (simp_all add: connected_tab_def init_def get_api_config_def)

lemma pump_armed_tab_fields:
  "api_connected pump_armed_tab" "pump_armed pump_armed_tab"
  "arm_pump_button_icon pump_armed_tab = ''unlock''"
  "posts pump_armed_tab = [request_of connected_tab ''ARM_PUMP'']"
  "log pump_armed_tab = []"
  "get_api_config pump_armed_tab = local_config"
  using handler_connected [of connected_tab Pump ok None]
  by (simp_all add: pump_armed_tab_def connected_tab_fields post_error_ok toggled_def
        toggle_command_def get_api_config_def)

lemma set_active_lever_connected:
  assumes "api_connected s"
  shows "set_active_lever net ev s =
     (if new ev = ''LH Lever'' \<or> new ev = ''RH Lever'' then
        (case post_error (net (length (posts s))) of
           Some e \<Rightarrow>
             s\<lparr>posts := posts s @ [request_of s (if new ev = ''LH Lever'' then ''ACTIVE_LEVER_LH'' else ''ACTIVE_LEVER_RH'')],
               log := log s @ [Error ''Failed to set active lever'' e]\<rparr>
         | None \<Rightarrow>
             s\<lparr>posts := posts s @ [request_of s (if new ev = ''LH Lever'' then ''ACTIVE_LEVER_LH'' else ''ACTIVE_LEVER_RH'')]\<rparr>)
      else s\<lparr>log := log s @ [Error ''Failed to set active lever'' unbound_data]\<rparr>)"
  using assms
  by (simp add: set_active_lever_def post_and_check_eq request_of_def add_error_def Let_def
        split: option.splits)

lemma send_cue_configuration_connected:
  assumes "api_connected s"
  shows "send_cue_configuration net ev s =
     (case post_error (net (length (posts s))) of
        Some e \<Rightarrow>
          s\<lparr>posts := posts s @ [request_of s (''SET_FREQUENCY_CS:'' @ str_int (cue_frequency_intslider s))],
            log := log s @ [Error ''Failed to send CS configuration'' e]\<rparr>
      | None \<Rightarrow>
          (case post_error (net (Suc (length (posts s)))) of
             Some e \<Rightarrow>
               s\<lparr>posts := posts s @ [request_of s (''SET_FREQUENCY_CS:'' @ str_int (cue_frequency_intslider s)),
                                      request_of s (''SET_DURATION_CS:'' @ str_int (cue_duration_intslider s))],
                 log := log s @ [Error ''Failed to send CS configuration'' e]\<rparr>
           | None \<Rightarrow>
               s\<lparr>posts := posts s @ [request_of s (''SET_FREQUENCY_CS:'' @ str_int (cue_frequency_intslider s)),
                                      request_of s (''SET_DURATION_CS:'' @ str_int (cue_duration_intslider s))]\<rparr>))"
  using assms
  by (simp add: send_cue_configuration_def post_and_check_eq request_of_def add_error_def Let_def
        split: option.splits)

lemma send_laser_configuration_connected:
  assumes "api_connected s"
  shows "send_laser_configuration net ev s =
     (case post_error (net (length (posts s))) of
        Some e \<Rightarrow>
          s\<lparr>posts := posts s @ [request_of s (''LASER_STIM_MODE_'' @ upper (stim_mode_str (stim_mode_widget s)))],
            log := log s @ [Error ''Failed to send laser configuration'' e]\<rparr>
      | None \<Rightarrow>
          (case post_error (net (Suc (length (posts s)))) of
             Some e \<Rightarrow>
               s\<lparr>posts := posts s @ [request_of s (''LASER_STIM_MODE_'' @ upper (stim_mode_str (stim_mode_widget s))),
                                      request_of s (''LASER_DURATION:'' @ str_int (stim_duration_slider s))],
                 log := log s @ [Error ''Failed to send laser configuration'' e]\<rparr>
           | None \<Rightarrow>
               (case post_error (net (Suc (Suc (length (posts s))))) of
                  Some e \<Rightarrow>
                    s\<lparr>posts := posts s @ [request_of s (''LASER_STIM_MODE_'' @ upper (stim_mode_str (stim_mode_widget s))),
                                           request_of s (''LASER_DURATION:'' @ str_int (stim_duration_slider s)),
                                           request_of s (''LASER_FREQUENCY:'' @ str_int (stim_frequency_slider s))],
                      log := log s @ [Error ''Failed to send laser configuration'' e]\<rparr>
                | None \<Rightarrow>
                    s\<lparr>posts := posts s @ [request_of s (''LASER_STIM_MODE_'' @ upper (stim_mode_str (stim_mode_widget s))),
                                           request_of s (''LASER_DURATION:'' @ str_int (stim_duration_slider s)),
                                           request_of s (''LASER_FREQUENCY:'' @ str_int (stim_frequency_slider s))]\<rparr>)))"
  using assms
  by (simp add: send_laser_configuration_def post_and_check_eq request_of_def add_error_def Let_def
        split: option.splits)

lemma digit_chars:
  "digit_char 0 = CHR ''0''" "digit_char 1 = CHR ''1''" "digit_char 2 = CHR ''2''"
  "digit_char 3 = CHR ''3''" "digit_char 4 = CHR ''4''" "digit_char 5 = CHR ''5''"
  "digit_char 6 = CHR ''6''" "digit_char 7 = CHR ''7''" "digit_char 8 = CHR ''8''"
  "digit_char 9 = CHR ''9''" "digit_char (Suc 0) = CHR ''1''"
  by code_simp+
lemma str_int_404: "str_int 404 = ''404''" by (simp add: str_int_def digit_chars)
lemma str_int_500: "str_int 500 = ''500''" by (simp add: str_int_def digit_chars)
lemma str_int_8000: "str_int 8000 = ''8000''" by (simp add: str_int_def digit_chars)
lemma str_int_1600: "str_int 1600 = ''1600''" by (simp add: str_int_def digit_chars)
lemma str_int_30: "str_int 30 = ''30''" by (simp add: str_int_def digit_chars)
lemma str_int_20: "str_int 20 = ''20''" by (simp add: str_int_def digit_chars)
lemma upper_Cycle: "upper ''Cycle'' = ''CYCLE''" by code_simp

lemma raise_for_status_None:
  "(raise_for_status r = None) = (\<not> error_status (status_code r))"
  by (simp add: raise_for_status_def error_status_def) linarith

subsection \<open>Flags and icons\<close>

lemma agrees_step: "agrees d s \<Longrightarrow> agrees d (step net c s)"
proof (cases c)
  case (Set_Active_Lever ev)
  assume "agrees d s"
  then show ?thesis unfolding Set_Active_Lever
    by (cases d)
       (simp_all add: agrees_def set_active_lever_def post_and_check_eq add_response_def
          add_error_def Let_def split: option.splits)
next
  case (Send_Cue_Configuration ev)
  assume "agrees d s"
  then show ?thesis unfolding Send_Cue_Configuration
    by (cases d)
       (simp_all add: agrees_def send_cue_configuration_def post_and_check_eq add_response_def
          add_error_def Let_def split: option.splits)
next
  case (Send_Laser_Configuration ev)
  assume "agrees d s"
  then show ?thesis unfolding Send_Laser_Configuration
    by (cases d)
       (simp_all add: agrees_def send_laser_configuration_def post_and_check_eq add_response_def
          add_error_def Let_def split: option.splits)
next
  case (Arm_RH_Lever ev)
  assume "agrees d s"
  then show ?thesis unfolding Arm_RH_Lever using agrees_handler [of d s RH_Lever] by simp
next
  case (Arm_LH_Lever ev)
  assume "agrees d s"
  then show ?thesis unfolding Arm_LH_Lever using agrees_handler [of d s LH_Lever] by simp
next
  case (Arm_CS ev)
  assume "agrees d s"
  then show ?thesis unfolding Arm_CS using agrees_handler [of d s Cue] by simp
next
  case (Arm_Pump ev)
  assume "agrees d s"
  then show ?thesis unfolding Arm_Pump using agrees_handler [of d s Pump] by simp
next
  case (Arm_Lick_Circuit ev)
  assume "agrees d s"
  then show ?thesis unfolding Arm_Lick_Circuit using agrees_handler [of d s Lick_Circuit] by simp
next
  case (Arm_Frames ev)
  assume "agrees d s"
  then show ?thesis unfolding Arm_Frames
    using agrees_handler [of d s Imaging_Timestamp_Receptor] by simp
next
  case (Arm_Laser ev)
  assume "agrees d s"
  then show ?thesis unfolding Arm_Laser using agrees_handler [of d s Laser] by simp
next
  case (Arm_Devices devices)
  assume "agrees d s"
  then show ?thesis unfolding Arm_Devices by (simp add: agrees_arm_devices)
next
  case (Connection b c')
  assume "agrees d s"
  then show ?thesis unfolding Connection by (cases d) (simp_all add: agrees_def)
next
  case (Cue_Frequency v)
  assume "agrees d s"
  then show ?thesis unfolding Cue_Frequency by (cases d) (simp_all add: agrees_def)
next
  case (Cue_Duration v)
  assume "agrees d s"
  then show ?thesis unfolding Cue_Duration by (cases d) (simp_all add: agrees_def)
next
  case (Stim_Mode v)
  assume "agrees d s"
  then show ?thesis unfolding Stim_Mode by (cases d) (simp_all add: agrees_def)
next
  case (Stim_Frequency v)
  assume "agrees d s"
  then show ?thesis unfolding Stim_Frequency by (cases d) (simp_all add: agrees_def)
next
  case (Stim_Duration v)
  assume "agrees d s"
  then show ?thesis unfolding Stim_Duration by (cases d) (simp_all add: agrees_def)
qed

lemma agrees_run: "agrees d s \<Longrightarrow> agrees d (run net cs s)"
  by (induction cs arbitrary: s) (simp_all add: agrees_step)

lemma agrees_init: "agrees d (init conn cfg)"
  by (cases d) (simp_all add: agrees_def init_def)

text \<open>
  Claim C5. After any sequence of calls from the initial object (handler calls, with any
  outcomes of their posts, failures included, and changes of the connection and of the
  widgets from outside), the flag of each device agrees with its icon: the flag is set
  exactly when the icon is \<^verbatim>\<open>unlock\<close>, and not set exactly when the icon is
  \<^verbatim>\<open>lock\<close>.
\<close>

theorem flag_agrees_with_icon:
  "(armed d (run net cs (init conn cfg)) = (icon d (run net cs (init conn cfg)) = ''unlock''))
   \<and> ((\<not> armed d (run net cs (init conn cfg))) = (icon d (run net cs (init conn cfg)) = ''lock''))"
proof -
  have "agrees d (run net cs (init conn cfg))"
    by (rule agrees_run [OF agrees_init])
  then show ?thesis by (simp add: agrees_def)
qed

subsection \<open>Handlers called without a connection\<close>

lemma arm_devices_disconnected:
  "\<not> api_connected s \<Longrightarrow>
   arm_devices net devices s =
     s\<lparr>log := log s @ replicate (length (filter (\<lambda>n. map_of hardware_components n \<noteq> None) devices))
                            (Response ''Please connect to the API first.'')\<rparr>"
proof (induction devices arbitrary: s)
  case Nil
  then show ?case by simp
next
  case (Cons n ns)
  show ?case
  proof (cases "map_of hardware_components n")
    case None
    then show ?thesis using Cons by simp
  next
    case (Some h)
    then obtain d where d: "n = device_name d" "h = handler d"
      using hardware_components_Some by blast
    let ?s = "s\<lparr>log := log s @ [Response ''Please connect to the API first.'']\<rparr>"
    have h: "h net None s = ?s" using Cons.prems d by (simp add: handler_disconnected)
    have "\<not> api_connected ?s" using Cons.prems by simp
    from Cons.IH [OF this] show ?thesis
      using Some h by (simp add: replicate_append_same)
  qed
qed

text \<open>
  Claim C1, as stated, for \<^verbatim>\<open>arm_devices\<close>: called without a connection on the two
  names \<^verbatim>\<open>Pump\<close> and \<^verbatim>\<open>Laser\<close>, it records two messages, one from each handler it
  calls, not one.
\<close>

theorem not_connected_arm_devices_two_messages:
  "\<not> api_connected (init False local_config)
   \<and> log (arm_devices (always (status 200 ''OK'')) [''Pump'', ''Laser''] (init False local_config)) =
       [Response ''Please connect to the API first.'', Response ''Please connect to the API first.'']"
  by (simp add: hardware_components_get handler_defs add_response_def init_def)

text \<open>
  Claim C1, amended. Called without a connection, each of the ten handlers
  (\<^verbatim>\<open>set_active_lever\<close>, the seven arm handlers, \<^verbatim>\<open>send_cue_configuration\<close>,
  \<^verbatim>\<open>send_laser_configuration\<close>) leaves the object as it was but for one message
  \<^verbatim>\<open>Please connect to the API first.\<close> at the end of the log: no post is made and no
  flag, icon or widget changes. \<^verbatim>\<open>arm_devices\<close> leaves the object as it was but for
  one such message for each name of its list that the dictionary has.
\<close>

theorem not_connected:
  assumes "\<not> api_connected s"
  shows "set_active_lever net ev s = s\<lparr>log := log s @ [Response ''Please connect to the API first.'']\<rparr>
       \<and> arm_rh_lever net e s = s\<lparr>log := log s @ [Response ''Please connect to the API first.'']\<rparr>
       \<and> arm_lh_lever net e s = s\<lparr>log := log s @ [Response ''Please connect to the API first.'']\<rparr>
       \<and> arm_cs net e s = s\<lparr>log := log s @ [Response ''Please connect to the API first.'']\<rparr>
       \<and> send_cue_configuration net e s = s\<lparr>log := log s @ [Response ''Please connect to the API first.'']\<rparr>
       \<and> arm_pump net e s = s\<lparr>log := log s @ [Response ''Please connect to the API first.'']\<rparr>
       \<and> arm_lick_circuit net e s = s\<lparr>log := log s @ [Response ''Please connect to the API first.'']\<rparr>
       \<and> arm_frames net e s = s\<lparr>log := log s @ [Response ''Please connect to the API first.'']\<rparr>
       \<and> arm_laser net e s = s\<lparr>log := log s @ [Response ''Please connect to the API first.'']\<rparr>
       \<and> send_laser_configuration net e s = s\<lparr>log := log s @ [Response ''Please connect to the API first.'']\<rparr>
       \<and> arm_devices net devices s =
           s\<lparr>log := log s @ replicate (length (filter (\<lambda>n. map_of hardware_components n \<noteq> None) devices))
                                  (Response ''Please connect to the API first.'')\<rparr>"
  using assms arm_devices_disconnected [OF assms, of net devices]
  by (simp add: handler_defs set_active_lever_def send_cue_configuration_def
        send_laser_configuration_def add_response_def)

text \<open>
  The amended claim C1 on the initial object without a connection: one message from
  the pump's handler and from the cue configuration, two from \<^verbatim>\<open>arm_devices\<close> on
  two known names and an unknown one.
\<close>

theorem not_connected_witness:
  "\<not> api_connected (init False local_config)
   \<and> arm_pump (always (status 200 ''OK'')) None (init False local_config) =
       (init False local_config)\<lparr>log := [Response ''Please connect to the API first.'']\<rparr>
   \<and> send_cue_configuration (always (status 200 ''OK'')) None (init False local_config) =
       (init False local_config)\<lparr>log := [Response ''Please connect to the API first.'']\<rparr>
   \<and> arm_devices (always (status 200 ''OK'')) [''Pump'', ''Laser'', ''Unknown''] (init False local_config) =
       (init False local_config)\<lparr>log := replicate 2 (Response ''Please connect to the API first.'')\<rparr>"
proof -
  have h: "\<not> api_connected (init False local_config)" by (simp add: init_def)
  have l: "log (init False local_config) = []"
    by (simp add: init_def)
  have f: "length (filter (\<lambda>n. map_of hardware_components n \<noteq> None) [''Pump'', ''Laser'', ''Unknown'']) = 2"
    by (simp add: hardware_components_get)
  note t = not_connected [OF h, of "always (status 200 ''OK'')" "\<lparr>new = ''LH Lever''\<rparr>" None
      "[''Pump'', ''Laser'', ''Unknown'']", unfolded f l append_Nil]
  show ?thesis
    using h t by blast
qed

subsection \<open>Toggling\<close>

text \<open>
  Claim C2, as stated, from an object whose pump is armed: the two calls send
  \<^verbatim>\<open>DISARM_PUMP\<close> first and \<^verbatim>\<open>ARM_PUMP\<close> second.
\<close>

theorem toggle_twice_from_armed:
  "api_connected pump_armed_tab \<and> pump_armed pump_armed_tab
   \<and> map command (drop (length (posts pump_armed_tab))
                        (posts (arm_pump ok None (arm_pump ok None pump_armed_tab)))) =
       [''DISARM_PUMP'', ''ARM_PUMP'']"
proof -
  note f1 = handler_connected_facts [OF pump_armed_tab_fields(1), of Pump ok None]
  note f2 = handler_connected_facts [OF f1(1), of Pump ok None]
  show ?thesis
    using f1 f2
    by (simp add: pump_armed_tab_fields toggle_command_def request_of_def)
qed

text \<open>
  Claim C2, amended. On a connected object reached from the initial one, two calls of a
  device's handler return the flag and the icon of the device to their values before the
  first call, and make exactly two posts: the device's ARM command and then its DISARM
  command when the device was not armed before the first call, its DISARM command and then
  its ARM command when it was.
\<close>

theorem toggle_twice:
  assumes "s = run net cs (init conn cfg)" and "api_connected s"
  shows "armed d (handler d net e2 (handler d net e1 s)) = armed d s
       \<and> icon d (handler d net e2 (handler d net e1 s)) = icon d s
       \<and> posts (handler d net e2 (handler d net e1 s)) =
           posts s @ (if armed d s
                      then [request_of s (disarm_command d), request_of s (arm_command d)]
                      else [request_of s (arm_command d), request_of s (disarm_command d)])"
proof -
  let ?s1 = "handler d net e1 s"
  have a: "agrees d s" unfolding assms(1) by (rule agrees_run [OF agrees_init])
  note f1 = handler_connected_facts [OF assms(2), of d net e1]
  note f2 = handler_connected_facts [OF f1(1), of d net e2]
  have r: "request_of ?s1 = request_of s"
    by (rule ext) (simp add: request_of_def f1(5))
  show ?thesis
    using a by (simp add: f2 f1 r agrees_def toggle_command_def)
qed

text \<open>
  The amended claim C2 for the pump, from the connected initial object and from the
  object after one call of the pump's handler.
\<close>

theorem toggle_twice_witness:
  "api_connected (run ok [] connected_tab)
   \<and> posts (handler Pump ok None (handler Pump ok None (run ok [] connected_tab))) =
       [request_of connected_tab ''ARM_PUMP'', request_of connected_tab ''DISARM_PUMP'']
   \<and> armed Pump (handler Pump ok None (handler Pump ok None (run ok [] connected_tab))) = False
   \<and> icon Pump (handler Pump ok None (handler Pump ok None (run ok [] connected_tab))) = ''lock''
   \<and> api_connected (run ok [Arm_Pump None] connected_tab)
   \<and> armed Pump (handler Pump ok None (handler Pump ok None (run ok [Arm_Pump None] connected_tab))) = True
   \<and> icon Pump (handler Pump ok None (handler Pump ok None (run ok [Arm_Pump None] connected_tab))) = ''unlock''"
proof -
  have r0: "run ok [] connected_tab = connected_tab" by simp
  have r1: "run ok [Arm_Pump None] connected_tab = pump_armed_tab"
    by (simp add: pump_armed_tab_def)
  have c0: "api_connected (run ok [] (init True local_config))"
    using connected_tab_fields(1) by (simp add: connected_tab_def)
  have c1: "api_connected (run ok [Arm_Pump None] (init True local_config))"
    using pump_armed_tab_fields(1) r1 by (simp add: connected_tab_def)
  note t0 = toggle_twice [OF refl c0, of Pump None None, folded connected_tab_def, unfolded r0]
  note t1 = toggle_twice [OF refl c1, of Pump None None, folded connected_tab_def, unfolded r1]
  show ?thesis
    unfolding r0 r1
    using t0 t1
    by (simp add: connected_tab_fields pump_armed_tab_fields)
qed

text \<open>
  Claim C6. When the post of an arm handler fails, by an exception of
  \<^verbatim>\<open>requests.post\<close> or by a status that \<^verbatim>\<open>raise_for_status\<close> raises on, with the
  error text \<open>e\<close>, the object after the call is the object after the toggle (flag
  inverted, icon set to match) with the post appended to the trace and one entry, the
  handler's label with \<open>e\<close>, appended to the log.
\<close>

theorem failed_post_keeps_toggle:
  assumes "api_connected s" and "post_error (net (length (posts s))) = Some e"
  shows "handler d net ev s =
           (toggled d s)\<lparr>posts := posts s @ [request_of s (toggle_command d s)],
                          log := log s @ [Error (label d) e]\<rparr>
         \<and> armed d (handler d net ev s) = (\<not> armed d s)
         \<and> icon d (handler d net ev s) = (if armed d s then ''lock'' else ''unlock'')
         \<and> log (handler d net ev s) = log s @ [Error (label d) e]"
  using assms by (simp add: handler_connected toggled_armed toggled_icon)

text \<open>The claim C6 for the pump, on a refused connection.\<close>

theorem failed_post_keeps_toggle_witness:
  "api_connected connected_tab
   \<and> post_error (always (Raised ''Connection refused'') (length (posts connected_tab))) = Some ''Connection refused''
   \<and> pump_armed (arm_pump (always (Raised ''Connection refused'')) None connected_tab) = True
   \<and> arm_pump_button_icon (arm_pump (always (Raised ''Connection refused'')) None connected_tab) = ''unlock''
   \<and> log (arm_pump (always (Raised ''Connection refused'')) None connected_tab) =
       [Error ''Failed to arm or disarm pump'' ''Connection refused'']"
proof -
  have h: "post_error (always (Raised ''Connection refused'') (length (posts connected_tab))) = Some ''Connection refused''"
    by (simp add: always_def)
  show ?thesis
    using h failed_post_keeps_toggle [where s = connected_tab
        and net = "always (Raised ''Connection refused'')" and e = "''Connection refused''"
        and d = Pump and ev = None, OF connected_tab_fields(1) h]
    by (simp add: connected_tab_fields toggled_def)
qed

text \<open>
  Claim C10. On a connected object, \<^verbatim>\<open>arm_devices\<close> called with the name of a device
  whose flag is set posts the DISARM command of the device, and leaves the flag not set
  and the icon \<^verbatim>\<open>lock\<close>.
\<close>

theorem arm_devices_disarms_armed:
  assumes "api_connected s" and "armed d s"
  shows "armed d (arm_devices net [device_name d] s) = False
         \<and> icon d (arm_devices net [device_name d] s) = ''lock''
         \<and> posts (arm_devices net [device_name d] s) = posts s @ [request_of s (disarm_command d)]"
  using assms
  by (simp add: hardware_components_name handler_connected toggled_armed toggled_icon
        toggle_command_def split: option.splits)

text \<open>The claim C10 for the pump, armed by a first call of its handler.\<close>

theorem arm_devices_disarms_armed_witness:
  "api_connected pump_armed_tab \<and> armed Pump pump_armed_tab
   \<and> pump_armed (arm_devices ok [''Pump''] pump_armed_tab) = False
   \<and> arm_pump_button_icon (arm_devices ok [''Pump''] pump_armed_tab) = ''lock''
   \<and> map command (posts (arm_devices ok [''Pump''] pump_armed_tab)) = [''ARM_PUMP'', ''DISARM_PUMP'']"
proof -
  have a: "armed Pump pump_armed_tab" by (simp add: pump_armed_tab_fields)
  note t = arm_devices_disarms_armed [OF pump_armed_tab_fields(1) a, of ok, unfolded device_name.simps]
  show ?thesis
    using a t
    by (simp add: pump_armed_tab_fields request_of_def del: arm_devices.simps)
qed

subsection \<open>Failures of a configuration send\<close>

text \<open>
  Claim C7. On a connected object, the first post of \<^verbatim>\<open>send_cue_configuration\<close> or
  \<^verbatim>\<open>send_laser_configuration\<close> that fails (with the error text \<open>e\<close>) is the last post
  of the call, and the call adds one entry to the log, the handler's label with \<open>e\<close>. When
  the second post of the cue configuration fails, the trace has the post of
  \<^verbatim>\<open>SET_FREQUENCY_CS\<close> and one post of \<^verbatim>\<open>SET_DURATION_CS\<close>.
\<close>

theorem configuration_send_aborts:
  assumes "api_connected s"
  shows "(post_error (net (length (posts s))) = Some e \<longrightarrow>
            send_cue_configuration net ev s =
              s\<lparr>posts := posts s @ [request_of s (''SET_FREQUENCY_CS:'' @ str_int (cue_frequency_intslider s))],
                log := log s @ [Error ''Failed to send CS configuration'' e]\<rparr>)
       \<and> (post_error (net (length (posts s))) = None \<and> post_error (net (Suc (length (posts s)))) = Some e \<longrightarrow>
            send_cue_configuration net ev s =
              s\<lparr>posts := posts s @ [request_of s (''SET_FREQUENCY_CS:'' @ str_int (cue_frequency_intslider s)),
                                     request_of s (''SET_DURATION_CS:'' @ str_int (cue_duration_intslider s))],
                log := log s @ [Error ''Failed to send CS configuration'' e]\<rparr>)
       \<and> (post_error (net (length (posts s))) = Some e \<longrightarrow>
            send_laser_configuration net ev s =
              s\<lparr>posts := posts s @ [request_of s (''LASER_STIM_MODE_'' @ upper (stim_mode_str (stim_mode_widget s)))],
                log := log s @ [Error ''Failed to send laser configuration'' e]\<rparr>)
       \<and> (post_error (net (length (posts s))) = None \<and> post_error (net (Suc (length (posts s)))) = Some e \<longrightarrow>
            send_laser_configuration net ev s =
              s\<lparr>posts := posts s @ [request_of s (''LASER_STIM_MODE_'' @ upper (stim_mode_str (stim_mode_widget s))),
                                     request_of s (''LASER_DURATION:'' @ str_int (stim_duration_slider s))],
                log := log s @ [Error ''Failed to send laser configuration'' e]\<rparr>)
       \<and> (post_error (net (length (posts s))) = None \<and> post_error (net (Suc (length (posts s)))) = None
            \<and> post_error (net (Suc (Suc (length (posts s))))) = Some e \<longrightarrow>
            send_laser_configuration net ev s =
              s\<lparr>posts := posts s @ [request_of s (''LASER_STIM_MODE_'' @ upper (stim_mode_str (stim_mode_widget s))),
                                     request_of s (''LASER_DURATION:'' @ str_int (stim_duration_slider s)),
                                     request_of s (''LASER_FREQUENCY:'' @ str_int (stim_frequency_slider s))],
                log := log s @ [Error ''Failed to send laser configuration'' e]\<rparr>)"
  by (simp add: send_cue_configuration_connected [OF assms] send_laser_configuration_connected [OF assms])

text \<open>
  The claim C7 on the connected initial object: a refused connection at the first post of
  each handler, a status 500 at the second, and a status 404 at the third post of the laser
  configuration.
\<close>

theorem configuration_send_aborts_witness:
  "api_connected connected_tab
   \<and> post_error (always (Raised ''Connection refused'') (length (posts connected_tab))) = Some ''Connection refused''
   \<and> map command (posts (send_cue_configuration (always (Raised ''Connection refused'')) None connected_tab)) =
       [''SET_FREQUENCY_CS:8000'']
   \<and> log (send_cue_configuration (always (Raised ''Connection refused'')) None connected_tab) =
       [Error ''Failed to send CS configuration'' ''Connection refused'']
   \<and> map command (posts (send_laser_configuration (always (Raised ''Connection refused'')) None connected_tab)) =
       [''LASER_STIM_MODE_CYCLE'']
   \<and> log (send_laser_configuration (always (Raised ''Connection refused'')) None connected_tab) =
       [Error ''Failed to send laser configuration'' ''Connection refused'']
   \<and> post_error (outcomes [status 200 ''OK'', status 500 ''Internal Server Error''] (length (posts connected_tab))) = None
   \<and> post_error (outcomes [status 200 ''OK'', status 500 ''Internal Server Error''] (Suc (length (posts connected_tab)))) =
       Some ''500 Server Error: Internal Server Error for url: http://localhost:8000/serial/command''
   \<and> map command (posts (send_cue_configuration (outcomes [status 200 ''OK'', status 500 ''Internal Server Error'']) None connected_tab)) =
       [''SET_FREQUENCY_CS:8000'', ''SET_DURATION_CS:1600'']
   \<and> log (send_cue_configuration (outcomes [status 200 ''OK'', status 500 ''Internal Server Error'']) None connected_tab) =
       [Error ''Failed to send CS configuration''
          ''500 Server Error: Internal Server Error for url: http://localhost:8000/serial/command'']
   \<and> map command (posts (send_laser_configuration (outcomes [status 200 ''OK'', status 500 ''Internal Server Error'']) None connected_tab)) =
       [''LASER_STIM_MODE_CYCLE'', ''LASER_DURATION:30'']
   \<and> log (send_laser_configuration (outcomes [status 200 ''OK'', status 500 ''Internal Server Error'']) None connected_tab) =
       [Error ''Failed to send laser configuration''
          ''500 Server Error: Internal Server Error for url: http://localhost:8000/serial/command'']
   \<and> post_error (outcomes [status 200 ''OK'', status 200 ''OK'', status 404 ''Not Found''] (Suc (Suc (length (posts connected_tab))))) =
       Some ''404 Client Error: Not Found for url: http://localhost:8000/serial/command''
   \<and> map command (posts (send_laser_configuration (outcomes [status 200 ''OK'', status 200 ''OK'', status 404 ''Not Found'']) None connected_tab)) =
       [''LASER_STIM_MODE_CYCLE'', ''LASER_DURATION:30'', ''LASER_FREQUENCY:20'']
   \<and> log (send_laser_configuration (outcomes [status 200 ''OK'', status 200 ''OK'', status 404 ''Not Found'']) None connected_tab) =
       [Error ''Failed to send laser configuration''
          ''404 Client Error: Not Found for url: http://localhost:8000/serial/command'']"
proof -
  let ?n1 = "always (Raised ''Connection refused'')"
  let ?n2 = "outcomes [status 200 ''OK'', status 500 ''Internal Server Error'']"
  let ?n3 = "outcomes [status 200 ''OK'', status 200 ''OK'', status 404 ''Not Found'']"
  let ?e5 = "''500 Server Error: Internal Server Error for url: http://localhost:8000/serial/command''"
  let ?e4 = "''404 Client Error: Not Found for url: http://localhost:8000/serial/command''"
  note c = connected_tab_fields(1)
  have w: "cue_frequency_intslider connected_tab = 8000" "cue_duration_intslider connected_tab = 1600"
    "stim_mode_widget connected_tab = Cycle" "stim_duration_slider connected_tab = 30"
    "stim_frequency_slider connected_tab = 20"
    by (simp_all add: connected_tab_def init_def)
  have h1: "post_error (?n1 (length (posts connected_tab))) = Some ''Connection refused''"
    by (simp add: always_def)
  have h2a: "post_error (?n2 (length (posts connected_tab))) = None"
    by (simp add: outcomes_def status_def raise_for_status_def connected_tab_fields)
  have h2b: "post_error (?n2 (Suc (length (posts connected_tab)))) = Some ?e5"
    by (simp add: outcomes_def status_def raise_for_status_def connected_tab_fields str_int_500)
  have h3a: "post_error (?n3 (length (posts connected_tab))) = None"
    by (simp add: outcomes_def status_def raise_for_status_def connected_tab_fields)
  have h3b: "post_error (?n3 (Suc (length (posts connected_tab)))) = None"
    by (simp add: outcomes_def status_def raise_for_status_def connected_tab_fields)
  have h3c: "post_error (?n3 (Suc (Suc (length (posts connected_tab))))) = Some ?e4"
    by (simp add: outcomes_def status_def raise_for_status_def connected_tab_fields str_int_404)
  note t1 = configuration_send_aborts [OF c, of ?n1 "''Connection refused''" None]
  note t2 = configuration_send_aborts [OF c, of ?n2 ?e5 None]
  note t3 = configuration_send_aborts [OF c, of ?n3 ?e4 None]
  have e1: "send_cue_configuration ?n1 None connected_tab =
      connected_tab\<lparr>posts := posts connected_tab @ [request_of connected_tab (''SET_FREQUENCY_CS:'' @ str_int (cue_frequency_intslider connected_tab))],
        log := log connected_tab @ [Error ''Failed to send CS configuration'' ''Connection refused'']\<rparr>"
    using t1 h1 by blast
  have e2: "send_laser_configuration ?n1 None connected_tab =
      connected_tab\<lparr>posts := posts connected_tab @ [request_of connected_tab (''LASER_STIM_MODE_'' @ upper (stim_mode_str (stim_mode_widget connected_tab)))],
        log := log connected_tab @ [Error ''Failed to send laser configuration'' ''Connection refused'']\<rparr>"
    using t1 h1 by blast
  have e3: "send_cue_configuration ?n2 None connected_tab =
      connected_tab\<lparr>posts := posts connected_tab @ [request_of connected_tab (''SET_FREQUENCY_CS:'' @ str_int (cue_frequency_intslider connected_tab)),
                                     request_of connected_tab (''SET_DURATION_CS:'' @ str_int (cue_duration_intslider connected_tab))],
        log := log connected_tab @ [Error ''Failed to send CS configuration'' ?e5]\<rparr>"
    using t2 h2a h2b by blast
  have e4: "send_laser_configuration ?n2 None connected_tab =
      connected_tab\<lparr>posts := posts connected_tab @ [request_of connected_tab (''LASER_STIM_MODE_'' @ upper (stim_mode_str (stim_mode_widget connected_tab))),
                                     request_of connected_tab (''LASER_DURATION:'' @ str_int (stim_duration_slider connected_tab))],
        log := log connected_tab @ [Error ''Failed to send laser configuration'' ?e5]\<rparr>"
    using t2 h2a h2b by blast
  have e5: "send_laser_configuration ?n3 None connected_tab =
      connected_tab\<lparr>posts := posts connected_tab @ [request_of connected_tab (''LASER_STIM_MODE_'' @ upper (stim_mode_str (stim_mode_widget connected_tab))),
                                     request_of connected_tab (''LASER_DURATION:'' @ str_int (stim_duration_slider connected_tab)),
                                     request_of connected_tab (''LASER_FREQUENCY:'' @ str_int (stim_frequency_slider connected_tab))],
        log := log connected_tab @ [Error ''Failed to send laser configuration'' ?e4]\<rparr>"
    using t3 h3a h3b h3c by blast
  show ?thesis
    unfolding e1 e2 e3 e4 e5
    using c h1 h2a h2b h3c
    by (simp add: connected_tab_fields w request_of_def str_int_8000 str_int_1600 str_int_30
          str_int_20 upper_Cycle)
qed

subsection \<open>Statuses that are failures\<close>

lemma status_result_handler:
  assumes "api_connected s"
  shows "status_result r s (handler d (\<lambda>k. Responded (r k)) ev s)"
  by (cases "raise_for_status (r (length (posts s)))")
     (simp_all add: status_result_def handler_connected [OF assms] toggled_fields
        raise_for_status_None [symmetric])

lemma status_result_cue:
  assumes "api_connected s"
  shows "status_result r s (send_cue_configuration (\<lambda>k. Responded (r k)) ev s)"
  by (cases "raise_for_status (r (length (posts s)))";
      cases "raise_for_status (r (Suc (length (posts s))))")
     (simp_all add: status_result_def send_cue_configuration_connected [OF assms]
        raise_for_status_None [symmetric])

lemma status_result_laser:
  assumes "api_connected s"
  shows "status_result r s (send_laser_configuration (\<lambda>k. Responded (r k)) ev s)"
  by (cases "raise_for_status (r (length (posts s)))";
      cases "raise_for_status (r (Suc (length (posts s))))";
      cases "raise_for_status (r (Suc (Suc (length (posts s)))))")
     (simp_all add: status_result_def send_laser_configuration_connected [OF assms]
        raise_for_status_None [symmetric])

lemma status_result_lever:
  assumes "api_connected s" and "new ev = ''LH Lever'' \<or> new ev = ''RH Lever''"
  shows "status_result r s (set_active_lever (\<lambda>k. Responded (r k)) ev s)"
  using assms(2)
  by (cases "raise_for_status (r (length (posts s)))")
     (simp_all add: status_result_def set_active_lever_connected [OF assms(1)]
        raise_for_status_None [symmetric])

lemma status_result_step:
  assumes "api_connected s" and "issues_post c"
  shows "status_result r s (step (\<lambda>k. Responded (r k)) c s)"
proof (cases c)
  case (Set_Active_Lever ev)
  then show ?thesis using assms status_result_lever by simp
next
  case (Arm_RH_Lever ev)
  then show ?thesis using status_result_handler [OF assms(1), of r RH_Lever] by simp
next
  case (Arm_LH_Lever ev)
  then show ?thesis using status_result_handler [OF assms(1), of r LH_Lever] by simp
next
  case (Arm_CS ev)
  then show ?thesis using status_result_handler [OF assms(1), of r Cue] by simp
next
  case (Send_Cue_Configuration ev)
  then show ?thesis using status_result_cue [OF assms(1)] by simp
next
  case (Arm_Pump ev)
  then show ?thesis using status_result_handler [OF assms(1), of r Pump] by simp
next
  case (Arm_Lick_Circuit ev)
  then show ?thesis using status_result_handler [OF assms(1), of r Lick_Circuit] by simp
next
  case (Arm_Frames ev)
  then show ?thesis using status_result_handler [OF assms(1), of r Imaging_Timestamp_Receptor] by simp
next
  case (Arm_Laser ev)
  then show ?thesis using status_result_handler [OF assms(1), of r Laser] by simp
next
  case (Send_Laser_Configuration ev)
  then show ?thesis using status_result_laser [OF assms(1)] by simp
qed (use assms(2) in simp_all)

text \<open>
  Claim C8, as stated, on a response with the status 304 to the pump's handler: the
  status is not in the 2xx range, the post was made, and no error is recorded.
\<close>

theorem status_304_is_not_a_failure:
  "api_connected connected_tab
   \<and> map command (posts (arm_pump (always (status 304 ''Not Modified'')) None connected_tab)) = [''ARM_PUMP'']
   \<and> log (arm_pump (always (status 304 ''Not Modified'')) None connected_tab) = []"
  using handler_connected [OF connected_tab_fields(1), of Pump "always (status 304 ''Not Modified'')" None]
  by (simp add: connected_tab_fields always_def status_def raise_for_status_def toggled_def
        toggle_command_def request_of_def)

text \<open>
  Claim C8, amended. For a call of a handler that posts, on a connected object, when every
  post gets a response: the call records no error exactly when no response to its posts has
  a status from 400 to 599, and records one error otherwise. So a response with a status
  from 400 to 599 is a failure, and every other response, those in the 2xx range among them,
  is a success.
\<close>

theorem status_decides_failure:
  assumes "api_connected s" and "issues_post c" and "s' = step (\<lambda>k. Responded (r k)) c s"
  shows "length (posts s) < length (posts s')
       \<and> (log s' = log s) =
           list_all (\<lambda>k. \<not> (400 \<le> status_code (r k) \<and> status_code (r k) < 600))
             [length (posts s)..<length (posts s')]
       \<and> (log s' = log s \<or> (\<exists>l e. log s' = log s @ [Error l e]))
       \<and> (list_all (\<lambda>k. 200 \<le> status_code (r k) \<and> status_code (r k) < 300)
             [length (posts s)..<length (posts s')] \<longrightarrow> log s' = log s)"
proof -
  have sr: "status_result r s s'"
    unfolding assms(3) by (rule status_result_step [OF assms(1,2)])
  have "list_all (\<lambda>k. 200 \<le> status_code (r k) \<and> status_code (r k) < 300)
          [length (posts s)..<length (posts s')]
        \<Longrightarrow> list_all (\<lambda>k. \<not> (400 \<le> status_code (r k) \<and> status_code (r k) < 600))
          [length (posts s)..<length (posts s')]"
    unfolding list_all_iff by fastforce
  then show ?thesis
    using sr unfolding status_result_def error_status_def by blast
qed

text \<open>
  The amended claim C8 for the cue configuration, on a server that answers 200 to the
  first post and 500 to the second.
\<close>

theorem status_decides_failure_witness:
  "api_connected connected_tab \<and> issues_post (Send_Cue_Configuration None)
   \<and> length (posts (step (\<lambda>k. Responded (second_fails k)) (Send_Cue_Configuration None) connected_tab)) = 2
   \<and> log (step (\<lambda>k. Responded (second_fails k)) (Send_Cue_Configuration None) connected_tab) \<noteq> []
   \<and> status_code (second_fails 0) = 200 \<and> status_code (second_fails 1) = 500"
proof -
  let ?s' = "step (\<lambda>k. Responded (second_fails k)) (Send_Cue_Configuration None) connected_tab"
  have h: "issues_post (Send_Cue_Configuration None)" by simp
  note t = status_decides_failure [OF connected_tab_fields(1) h refl, of second_fails]
  have p: "length (posts ?s') = 2"
    by (simp add: send_cue_configuration_connected [OF connected_tab_fields(1)]
          connected_tab_fields second_fails_def raise_for_status_def split: option.splits)
  have u: "[0..<2] = [0, Suc 0]" by code_simp
  have "log ?s' \<noteq> log connected_tab"
    using t unfolding p connected_tab_fields list.size u by (simp add: second_fails_def)
  then show ?thesis
    using h p by (simp add: connected_tab_fields second_fails_def)
qed

subsection \<open>Arming a list of devices\<close>

lemma arm_devices_foldl:
  "arm_devices net devices s =
     foldl (\<lambda>s arm_device. arm_device net None s) s (List.map_filter (map_of hardware_components) devices)"
  by (induction devices arbitrary: s) (simp_all add: map_filter_simps split: option.splits)

lemma arm_devices_filter:
  "arm_devices net devices s =
     arm_devices net (filter (\<lambda>n. map_of hardware_components n \<noteq> None) devices) s"
  by (induction devices arbitrary: s) (auto split: option.splits)


lemma arm_devices_unknown:
  "arm_devices net (filter (\<lambda>n. map_of hardware_components n = None) devices) s = s"
  by (induction devices) simp_all

text \<open>
  Claim C9. \<^verbatim>\<open>arm_devices\<close> runs, in the order of the list, the handlers that the
  dictionary gives for the names of the list, each with the event \<^verbatim>\<open>None\<close>; the names
  the dictionary does not have change nothing (a list of such names leaves the object as it
  was); the dictionary has the seven names below and no other. The result is the object
  alone: there is no status for each device.
\<close>

theorem arm_devices_dispatch:
  "arm_devices net devices s =
     foldl (\<lambda>s arm_device. arm_device net None s) s
       (List.map_filter (map_of hardware_components) devices)
   \<and> arm_devices net devices s =
       arm_devices net (filter (\<lambda>n. map_of hardware_components n \<noteq> None) devices) s
   \<and> arm_devices net (filter (\<lambda>n. map_of hardware_components n = None) devices) s = s
   \<and> map_of hardware_components n =
       (if n = ''LH Lever'' then Some arm_lh_lever
        else if n = ''RH Lever'' then Some arm_rh_lever
        else if n = ''Cue'' then Some arm_cs
        else if n = ''Pump'' then Some arm_pump
        else if n = ''Lick Circuit'' then Some arm_lick_circuit
        else if n = ''Laser'' then Some arm_laser
        else if n = ''Imaging Timestamp Receptor'' then Some arm_frames
        else None)"
  using arm_devices_foldl [of net devices s] arm_devices_filter [of net devices s]
    arm_devices_unknown [of net devices s] hardware_components_get [of n]
  by (intro conjI)

subsection \<open>The square wave\<close>

lemma length_np_linspace: "length (np_linspace A num) = num"
  by (simp add: np_linspace_def)

text \<open>
  Claim C3. For the frequency 1, \<^verbatim>\<open>plot_square_wave\<close> plots a wave of 1000 samples over
  the 1000 sample times: the sample at index 0 is low, the 998 samples at the indices 1 to
  998 are high, and the sample at index 999 is low. The wave is this list whatever the
  arithmetic \<open>A\<close> is: the period formula is not used.
\<close>

theorem plot_square_wave_frequency_1:
  "plot_square_wave A 1 = Inr (np_linspace A 1000, 0 # replicate 998 1 @ [0])
   \<and> length (0 # replicate 998 (1::int) @ [0]) = 1000
   \<and> length (np_linspace A 1000) = 1000"
proof -
  have "slice_assign (replicate 1000 (0::int)) 1 999 1 = 0 # replicate 998 1 @ [0]"
  proof -
    have a: "take 1 (replicate 1000 (0::int)) = [0]"
      by (simp add: take_Suc_conv_app_nth)
    have b: "drop 999 (replicate 1000 (0::int)) = [0]"
      by (simp add: replicate_append_same [symmetric] del: replicate_append_same)
    show ?thesis
      by (simp add: slice_assign_def Let_def a b)
  qed
  then show ?thesis
    by (simp add: plot_square_wave_def Let_def length_np_linspace)
qed




text \<open>
  For the frequency 0, which the frequency slider (from 1 to 100) does not deliver,
  \<^verbatim>\<open>1 / frequency\<close> raises \<^verbatim>\<open>ZeroDivisionError\<close>.
\<close>

lemma plot_square_wave_zero_division: "plot_square_wave A 0 = Inl ZeroDivisionError"
  by (simp add: plot_square_wave_def Let_def)

subsection \<open>The square wave in double precision\<close>


















end
